theory Spec2Isabelle
  imports Complex_Main
begin

section \<open>Photon random walk: data model\<close>

text \<open>
  The simulation lives in two React components: the page \<^verbatim>\<open>Index.tsx\<close>, which owns
  the live photons, the retired trails and the module-level id counter, and the
  component \<^verbatim>\<open>PhotonSimulation\<close>, whose \<^verbatim>\<open>Photon\<close> frame callback advances one
  photon and whose \<^verbatim>\<open>Scene\<close> effect retires photons that went too far.  The
  repository holds two revisions of \<^verbatim>\<open>PhotonSimulation\<close>; where they differ, the
  earlier one carries the suffix \<open>_v1\<close>.

  JavaScript numbers are IEEE doubles.  They are modelled by \<^typ>\<open>real\<close>: every
  statement below is about the arithmetic the code writes down, read exactly, and
  says nothing about rounding.  Calls to \<^verbatim>\<open>Math.random()\<close> and \<^verbatim>\<open>Date.now()\<close> become
  arguments, in the order in which the code draws them.
\<close>

subsection \<open>The part of \<^verbatim>\<open>THREE.Vector3\<close> the code calls\<close>

datatype Vector3 = Vector3 (vx: real) (vy: real) (vz: real)

definition add_v :: "Vector3 \<Rightarrow> Vector3 \<Rightarrow> Vector3" where
  "add_v a b = Vector3 (vx a + vx b) (vy a + vy b) (vz a + vz b)"

definition multiplyScalar :: "Vector3 \<Rightarrow> real \<Rightarrow> Vector3" where
  "multiplyScalar a s = Vector3 (vx a * s) (vy a * s) (vz a * s)"

definition divideScalar :: "Vector3 \<Rightarrow> real \<Rightarrow> Vector3" where
  "divideScalar a s = multiplyScalar a (1 / s)"

definition length_v :: "Vector3 \<Rightarrow> real" where
  "length_v a = sqrt (vx a * vx a + vy a * vy a + vz a * vz a)"

text \<open>\<^verbatim>\<open>normalize_v()\<close> is \<^verbatim>\<open>divideScalar(this.length() || 1)\<close>: the zero vector stays put.\<close>

definition normalize_v :: "Vector3 \<Rightarrow> Vector3" where
  "normalize_v a = divideScalar a (if length_v a = 0 then 1 else length_v a)"

definition distanceTo :: "Vector3 \<Rightarrow> Vector3 \<Rightarrow> real" where
  "distanceTo a b =
     (let dx = vx a - vx b; dy = vy a - vy b; dz = vz a - vz b
      in sqrt (dx * dx + dy * dy + dz * dz))"

definition origin :: Vector3 where
  "origin = Vector3 0 0 0"

subsection \<open>\<^verbatim>\<open>PhotonData\<close>, \<^verbatim>\<open>PhotonTrail\<close> and the settings\<close>

record PhotonData =
  photon_id :: int
  position :: Vector3
  velocity :: Vector3
  path :: "Vector3 list"
  isOutside :: bool
  distanceFromCenter :: real

record PhotonTrail =
  trail_id :: int
  trail_path :: "Vector3 list"

record Settings =
  rotationSpeed :: real
  sphereTransparency :: real
  photonSpeed :: real
  stepDistance :: real
  photonSize :: real

definition SPHERE_RADIUS :: real where
  "SPHERE_RADIUS = 3.5"

definition MAX_DISTANCE :: real where
  "MAX_DISTANCE = 25"

definition DISTANCE_THRESHOLD :: real where
  "DISTANCE_THRESHOLD = 0.1"

definition MAX_PHOTONS :: nat where
  "MAX_PHOTONS = 8"

section \<open>Retiring a photon into a trail\<close>

text \<open>
  The callback of \<^verbatim>\<open>removedPhotons.map\<close> in the \<^verbatim>\<open>Scene\<close> effect (the same text in
  both revisions).  \<^verbatim>\<open>trailPath[0]\<close> is read only when the path has one element.
\<close>

definition toTrail :: "PhotonData \<Rightarrow> PhotonTrail" where
  "toTrail p =
     (let trailPath = path p;
          trailPath' =
            (if length trailPath < 2 \<and> length trailPath > 0 then trailPath @ [hd trailPath]
             else if length trailPath = 0 then [position p, position p]
             else trailPath)
      in \<lparr>trail_id = photon_id p, trail_path = trailPath'\<rparr>)"

section \<open>The frame callback of \<^verbatim>\<open>Photon\<close>\<close>

text \<open>
  A triple of type \<open>draws\<close> holds the values of three successive calls of
  \<^verbatim>\<open>Math.random()\<close>.  In the frame callback the first is compared with 0.3 and the
  other two give \<^verbatim>\<open>theta\<close> and \<^verbatim>\<open>phi\<close> (drawn only when the comparison succeeds).
\<close>

type_synonym draws = "real \<times> real \<times> real"

definition randomDirection :: "real \<Rightarrow> real \<Rightarrow> Vector3" where
  "randomDirection r1 r2 =
     (let theta = r1 * pi * 2; phi = r2 * pi
      in Vector3 (sin phi * cos theta) (sin phi * sin theta) (cos phi))"

text \<open>\<^verbatim>\<open>if (newPhoton.path.length < 2) newPhoton.path = [...newPhoton.path, position.clone()]\<close>\<close>

definition seedPath :: "PhotonData \<Rightarrow> PhotonData" where
  "seedPath newPhoton =
     (if length (path newPhoton) < 2
      then newPhoton\<lparr>path := path newPhoton @ [position newPhoton]\<rparr>
      else newPhoton)"

text \<open>
  The \<^verbatim>\<open>if (!newPhoton.isOutside) ... else ...\<close> statement.  In the boundary branch
  \<^verbatim>\<open>distanceFromCenter\<close> has been assigned before the position is normalised and
  is not assigned again.
\<close>

definition movePhoton :: "Settings \<Rightarrow> real \<Rightarrow> draws \<Rightarrow> PhotonData \<Rightarrow> PhotonData" where
  "movePhoton settings delta rnd newPhoton =
     (let speed = photonSpeed settings * delta * 2 in
      if \<not> isOutside newPhoton then
        (let vel = (if fst rnd < 0.3
                    then multiplyScalar (randomDirection (fst (snd rnd)) (snd (snd rnd)))
                           (stepDistance settings)
                    else velocity newPhoton);
             pos = add_v (position newPhoton) (multiplyScalar vel speed);
             d = length_v pos
         in if d \<ge> SPHERE_RADIUS then
              (let pos' = multiplyScalar (normalize_v pos) SPHERE_RADIUS
               in newPhoton\<lparr>velocity := multiplyScalar (normalize_v pos') 0.5, position := pos',
                    distanceFromCenter := d, isOutside := True\<rparr>)
            else newPhoton\<lparr>velocity := vel, position := pos, distanceFromCenter := d\<rparr>)
      else
        (let pos = add_v (position newPhoton) (multiplyScalar (velocity newPhoton) (speed * 3))
         in newPhoton\<lparr>position := pos, distanceFromCenter := length_v pos\<rparr>))"

text \<open>
  \<^verbatim>\<open>if (path.length === 0 || path[path.length - 1].distanceTo(position) > threshold)\<close>:
  the last element is read only when the path is not empty.
\<close>

definition recordPath :: "real \<Rightarrow> PhotonData \<Rightarrow> PhotonData" where
  "recordPath threshold newPhoton =
     (if length (path newPhoton) = 0
         \<or> distanceTo (last (path newPhoton)) (position newPhoton) > threshold
      then newPhoton\<lparr>path := path newPhoton @ [position newPhoton]\<rparr>
      else newPhoton)"

text \<open>
  The callback returns at once when the simulation is paused (\<open>None\<close>: \<^verbatim>\<open>onUpdate\<close>
  is not called); otherwise it hands the new photon to \<^verbatim>\<open>onUpdate\<close>.
\<close>

definition Photon_useFrame ::
  "Settings \<Rightarrow> bool \<Rightarrow> real \<Rightarrow> draws \<Rightarrow> PhotonData \<Rightarrow> PhotonData option" where
  "Photon_useFrame settings isPaused delta rnd photon =
     (if isPaused then None
      else Some (recordPath DISTANCE_THRESHOLD (movePhoton settings delta rnd (seedPath photon))))"

text \<open>The earlier revision writes the threshold 0.05 into the test.\<close>

definition Photon_useFrame_v1 ::
  "Settings \<Rightarrow> bool \<Rightarrow> real \<Rightarrow> draws \<Rightarrow> PhotonData \<Rightarrow> PhotonData option" where
  "Photon_useFrame_v1 settings isPaused delta rnd photon =
     (if isPaused then None
      else Some (recordPath 0.05 (movePhoton settings delta rnd (seedPath photon))))"

text \<open>A run of frames of one photon; a paused frame leaves it as it is.\<close>

fun frames :: "(Settings \<times> bool \<times> real \<times> draws) list \<Rightarrow> PhotonData \<Rightarrow> PhotonData" where
  "frames [] photon = photon"
| "frames ((settings, isPaused, delta, rnd) # rest) photon =
     (case Photon_useFrame settings isPaused delta rnd photon of
        None \<Rightarrow> frames rest photon
      | Some newPhoton \<Rightarrow> frames rest newPhoton)"

fun frames_v1 :: "(Settings \<times> bool \<times> real \<times> draws) list \<Rightarrow> PhotonData \<Rightarrow> PhotonData" where
  "frames_v1 [] photon = photon"
| "frames_v1 ((settings, isPaused, delta, rnd) # rest) photon =
     (case Photon_useFrame_v1 settings isPaused delta rnd photon of
        None \<Rightarrow> frames_v1 rest photon
      | Some newPhoton \<Rightarrow> frames_v1 rest newPhoton)"

section \<open>The page \<^verbatim>\<open>Index.tsx\<close>\<close>

definition DEFAULT_SETTINGS :: Settings where
  "DEFAULT_SETTINGS = \<lparr>rotationSpeed = 0.3, sphereTransparency = 0.4, photonSpeed = 1.0,
     stepDistance = 0.625, photonSize = 3\<rparr>"

text \<open>
  \<^verbatim>\<open>photonIdCounter++\<close> on a JavaScript number: the counter starts at 0 and is only
  ever incremented, so it runs through the integers up to \<open>2^53\<close> and stays there
  (\<open>2^53 + 1\<close> rounds back to \<open>2^53\<close>).
\<close>

definition increment :: "int \<Rightarrow> int" where
  "increment n = (if n < 2 ^ 53 then n + 1 else n)"

text \<open>
  \<^verbatim>\<open>createPhoton()\<close> reads and increments the module variable \<^verbatim>\<open>photonIdCounter\<close>:
  the model takes the counter and returns the photon with the new counter.
\<close>

definition createPhoton :: "int \<Rightarrow> draws \<Rightarrow> PhotonData \<times> int" where
  "createPhoton photonIdCounter rnd =
     (let startPos = Vector3 0 0 0;
          velocity = Vector3 ((fst rnd - 0.5) * 0.1) ((fst (snd rnd) - 0.5) * 0.1)
                       ((snd (snd rnd) - 0.5) * 0.1);
          secondPos = add_v startPos (multiplyScalar velocity 0.01)
      in (\<lparr>photon_id = photonIdCounter, position = startPos, velocity = velocity,
            path = [startPos, secondPos], isOutside = False, distanceFromCenter = 0\<rparr>,
          increment photonIdCounter))"

text \<open>The state of the page: its four \<^verbatim>\<open>useState\<close> cells and the module variable.\<close>

record Index =
  settings :: Settings
  photons :: "PhotonData list"
  trails :: "PhotonTrail list"
  isPaused :: bool
  photonIdCounter :: int

text \<open>The first render: the counter is 0 and \<^verbatim>\<open>useState([createPhoton()])\<close> keeps its argument.\<close>

definition mount :: "draws \<Rightarrow> Index" where
  "mount rnd =
     (let (photon, counter) = createPhoton 0 rnd
      in \<lparr>settings = DEFAULT_SETTINGS, photons = [photon], trails = [], isPaused = False,
           photonIdCounter = counter\<rparr>)"

text \<open>
  Every later render evaluates the argument of \<^verbatim>\<open>useState([createPhoton()])\<close> again and
  drops the value: the counter moves on, the state does not.
\<close>

definition render :: "draws \<Rightarrow> Index \<Rightarrow> Index" where
  "render rnd s = s\<lparr>photonIdCounter := snd (createPhoton (photonIdCounter s) rnd)\<rparr>"

definition handleReset :: "draws \<Rightarrow> Index \<Rightarrow> Index" where
  "handleReset rnd s =
     (let (photon, counter) = createPhoton (photonIdCounter s) rnd
      in s\<lparr>photons := [photon], trails := [], photonIdCounter := counter\<rparr>)"

definition handleAddPhoton :: "draws \<Rightarrow> Index \<Rightarrow> Index" where
  "handleAddPhoton rnd s =
     (if length (photons s) < MAX_PHOTONS then
        (let (photon, counter) = createPhoton (photonIdCounter s) rnd
         in s\<lparr>photons := photons s @ [photon], photonIdCounter := counter\<rparr>)
      else s)"

definition handlePhotonsUpdate ::
  "PhotonData list \<Rightarrow> PhotonTrail list option \<Rightarrow> Index \<Rightarrow> Index" where
  "handlePhotonsUpdate updatedPhotons completedTrails s =
     (case completedTrails of
        None \<Rightarrow> s\<lparr>photons := updatedPhotons\<rparr>
      | Some ts \<Rightarrow> s\<lparr>photons := updatedPhotons, trails := trails s @ ts\<rparr>)"

section \<open>The component \<^verbatim>\<open>Scene\<close>\<close>

definition handlePhotonUpdate :: "PhotonData \<Rightarrow> Index \<Rightarrow> Index" where
  "handlePhotonUpdate updatedPhoton s =
     (let newPhotons =
            map (\<lambda>p. if photon_id p = photon_id updatedPhoton then updatedPhoton else p) (photons s)
      in handlePhotonsUpdate newPhotons None s)"

text \<open>
  The effect that removes photons that are too far away.  \<open>now\<close> is the value of
  \<^verbatim>\<open>Date.now()\<close>, \<open>rnd\<close> the three draws for the velocity of the new photon.
\<close>

definition Scene_effect :: "int \<Rightarrow> draws \<Rightarrow> Index \<Rightarrow> Index" where
  "Scene_effect now rnd s =
     (let activePhotons = filter (\<lambda>p. distanceFromCenter p < MAX_DISTANCE) (photons s);
          removedPhotons = filter (\<lambda>p. distanceFromCenter p \<ge> MAX_DISTANCE) (photons s);
          newTrails = map toTrail removedPhotons
      in if length activePhotons < length (photons s) \<and> length activePhotons = 0 then
           (let start = Vector3 0 0 0;
                vel = Vector3 ((fst rnd - 0.5) * 0.1) ((fst (snd rnd) - 0.5) * 0.1)
                        ((snd (snd rnd) - 0.5) * 0.1);
                second = add_v start (multiplyScalar vel 0.01);
                newPhoton = \<lparr>photon_id = now, position = Vector3 0 0 0, velocity = vel,
                   path = [start, second], isOutside = False, distanceFromCenter = 0\<rparr>
            in handlePhotonsUpdate [newPhoton] (Some newTrails) s)
         else if length activePhotons \<noteq> length (photons s) then
           handlePhotonsUpdate activePhotons (Some newTrails) s
         else s)"

text \<open>In the earlier revision the new photon starts with a one-point path.\<close>

definition Scene_effect_v1 :: "int \<Rightarrow> draws \<Rightarrow> Index \<Rightarrow> Index" where
  "Scene_effect_v1 now rnd s =
     (let activePhotons = filter (\<lambda>p. distanceFromCenter p < MAX_DISTANCE) (photons s);
          removedPhotons = filter (\<lambda>p. distanceFromCenter p \<ge> MAX_DISTANCE) (photons s);
          newTrails = map toTrail removedPhotons
      in if length activePhotons < length (photons s) \<and> length activePhotons = 0 then
           (let newPhoton = \<lparr>photon_id = now, position = Vector3 0 0 0,
                   velocity = Vector3 ((fst rnd - 0.5) * 0.1) ((fst (snd rnd) - 0.5) * 0.1)
                                ((snd (snd rnd) - 0.5) * 0.1),
                   path = [Vector3 0 0 0], isOutside = False, distanceFromCenter = 0\<rparr>
            in handlePhotonsUpdate [newPhoton] (Some newTrails) s)
         else if length activePhotons \<noteq> length (photons s) then
           handlePhotonsUpdate activePhotons (Some newTrails) s
         else s)"

section \<open>Segment colours\<close>

text \<open>
  The part of \<^verbatim>\<open>THREE.Color\<close> the code calls, with the library's colour management
  as it is by default (enabled): \<^verbatim>\<open>new THREE.Color(hex)\<close> reads the three bytes of the
  number as sRGB values and stores them converted to the linear working space;
  \<^verbatim>\<open>lerpColors\<close> and \<^verbatim>\<open>multiplyScalar\<close> work on the stored components.
\<close>

datatype Color = Color (cr: real) (cg: real) (cb: real)

definition SRGBToLinear :: "real \<Rightarrow> real" where
  "SRGBToLinear c =
     (if c < 0.04045 then c * 0.0773993808
      else (c * 0.9478672986 + 0.0521327014) powr 2.4)"

definition Color_hex :: "nat \<Rightarrow> Color" where
  "Color_hex hex =
     Color (SRGBToLinear (real (hex div 65536 mod 256) / 255))
       (SRGBToLinear (real (hex div 256 mod 256) / 255))
       (SRGBToLinear (real (hex mod 256) / 255))"

definition lerpColors :: "Color \<Rightarrow> Color \<Rightarrow> real \<Rightarrow> Color" where
  "lerpColors c1 c2 alpha =
     Color (cr c1 + (cr c2 - cr c1) * alpha) (cg c1 + (cg c2 - cg c1) * alpha)
       (cb c1 + (cb c2 - cb c1) * alpha)"

definition Color_multiplyScalar :: "Color \<Rightarrow> real \<Rightarrow> Color" where
  "Color_multiplyScalar c s = Color (cr c * s) (cg c * s) (cb c * s)"

text \<open>\<^verbatim>\<open>0x370307\<close> (photon-start) and \<^verbatim>\<open>0xc85e0a\<close> (photon-end).\<close>

definition photon_start :: nat where
  "photon_start = 3605255"

definition photon_end :: nat where
  "photon_end = 13131274"

text \<open>
  Earlier revision: each segment gets a material of its own, with a colour and an
  opacity computed from the segment's start point.  The same statements stand in
  the body of the loop of \<^verbatim>\<open>Photon\<close> (live photons) and in that of \<^verbatim>\<open>TrailRenderer\<close>
  (retired trails); each is translated from its own place.
\<close>

definition Photon_segment_v1 :: "Vector3 \<Rightarrow> Color \<times> real" where
  "Photon_segment_v1 start =
     (let d = length_v start in
      if d \<le> SPHERE_RADIUS then
        (let t = d / SPHERE_RADIUS
         in (lerpColors (Color_hex photon_start) (Color_hex photon_end) t, 1.0))
      else
        (let fadeDistance = max 0 ((d - SPHERE_RADIUS) / 10)
         in (Color_hex photon_end, max 0.1 (exp (- fadeDistance)))))"

definition TrailRenderer_segment_v1 :: "Vector3 \<Rightarrow> Color \<times> real" where
  "TrailRenderer_segment_v1 start =
     (let d = length_v start in
      if d \<le> SPHERE_RADIUS then
        (let t = d / SPHERE_RADIUS
         in (lerpColors (Color_hex photon_start) (Color_hex photon_end) t, 1.0))
      else
        (let fadeDistance = max 0 ((d - SPHERE_RADIUS) / 10)
         in (Color_hex photon_end, max 0.1 (exp (- fadeDistance)))))"

text \<open>
  Later revision: one line object per path with vertex colours; the fade is
  multiplied into the colour and there is no opacity per segment.
\<close>

definition Photon_segment :: "Vector3 \<Rightarrow> Color" where
  "Photon_segment start =
     (let d = length_v start in
      if d \<le> SPHERE_RADIUS then
        (let t = d / SPHERE_RADIUS
         in lerpColors (Color_hex photon_start) (Color_hex photon_end) t)
      else
        (let fadeDistance = max 0 ((d - SPHERE_RADIUS) / 10);
             fade = max 0.1 (exp (- fadeDistance))
         in Color_multiplyScalar (Color_hex photon_end) fade))"

definition TrailRenderer_segment :: "Vector3 \<Rightarrow> Color" where
  "TrailRenderer_segment start =
     (let d = length_v start in
      if d \<le> SPHERE_RADIUS then
        (let t = d / SPHERE_RADIUS
         in lerpColors (Color_hex photon_start) (Color_hex photon_end) t)
      else
        (let fadeDistance = max 0 ((d - SPHERE_RADIUS) / 10);
             fade = max 0.1 (exp (- fadeDistance))
         in Color_multiplyScalar (Color_hex photon_end) fade))"

section \<open>The running page\<close>

text \<open>
  What can happen to the page after its first render: a further render, the three
  buttons, a change of the settings, the frame callback of the photon at one index
  of the list, and the effect of \<^verbatim>\<open>Scene\<close>.  Each callback is applied to the
  current state of the page.
\<close>

datatype revision = Rev1 | Rev2

datatype event =
    Render draws
  | Reset draws
  | AddPhoton draws
  | PauseToggle
  | SettingsChange Settings
  | Frame nat real draws
  | Effect int draws

fun fire :: "revision \<Rightarrow> event \<Rightarrow> Index \<Rightarrow> Index" where
  "fire rv (Render rnd) s = render rnd s"
| "fire rv (Reset rnd) s = handleReset rnd s"
| "fire rv (AddPhoton rnd) s = handleAddPhoton rnd s"
| "fire rv PauseToggle s = s\<lparr>isPaused := \<not> isPaused s\<rparr>"
| "fire rv (SettingsChange c) s = s\<lparr>settings := c\<rparr>"
| "fire rv (Frame i delta rnd) s =
     (if i < length (photons s) then
        (case (case rv of Rev1 \<Rightarrow> Photon_useFrame_v1 | Rev2 \<Rightarrow> Photon_useFrame)
                (settings s) (isPaused s) delta rnd (photons s ! i) of
           None \<Rightarrow> s
         | Some newPhoton \<Rightarrow> handlePhotonUpdate newPhoton s)
      else s)"
| "fire rv (Effect now rnd) s =
     (case rv of Rev1 \<Rightarrow> Scene_effect_v1 now rnd s | Rev2 \<Rightarrow> Scene_effect now rnd s)"

inductive reachable :: "revision \<Rightarrow> Index \<Rightarrow> bool" for rv :: revision where
  first_render: "reachable rv (mount rnd)"
| after_event: "reachable rv s \<Longrightarrow> reachable rv (fire rv e s)"

text \<open>A run of events, oldest first.\<close>

fun run :: "revision \<Rightarrow> event list \<Rightarrow> Index \<Rightarrow> Index" where
  "run rv [] s = s"
| "run rv (e # es) s = run rv es (fire rv e s)"

section \<open>Theorems\<close>

subsection \<open>Vectors and the parts of a frame\<close>

lemma length_v_nonneg: "0 \<le> length_v a"
  by (simp add: length_v_def)

lemma length_v_multiplyScalar: "length_v (multiplyScalar a s) = \<bar>s\<bar> * length_v a"
proof -
  have "vx a * s * (vx a * s) + vy a * s * (vy a * s) + vz a * s * (vz a * s)
        = s\<^sup>2 * (vx a * vx a + vy a * vy a + vz a * vz a)"
    by (simp add: power2_eq_square algebra_simps)
  then show ?thesis
    by (simp add: length_v_def multiplyScalar_def real_sqrt_mult)
qed

lemma length_v_axis: "length_v (Vector3 a 0 0) = \<bar>a\<bar>"
  by (simp add: length_v_def)

lemma distanceTo_axis: "distanceTo (Vector3 a 0 0) (Vector3 b 0 0) = \<bar>a - b\<bar>"
  by (simp add: distanceTo_def)

lemma multiplyScalar_twice: "multiplyScalar (multiplyScalar a s) t = multiplyScalar a (s * t)"
  by (simp add: multiplyScalar_def)

lemma normalize_v_scale:
  "length_v a \<noteq> 0 \<Longrightarrow> normalize_v a = multiplyScalar a (1 / length_v a)"
  by (simp add: normalize_v_def divideScalar_def)

lemma length_v_normalize: "length_v a \<noteq> 0 \<Longrightarrow> length_v (normalize_v a) = 1"
  using length_v_nonneg [of a] by (simp add: normalize_v_scale length_v_multiplyScalar)

lemma boundary_position:
  assumes "SPHERE_RADIUS \<le> length_v pos"
  shows "multiplyScalar (normalize_v pos) SPHERE_RADIUS = multiplyScalar pos (SPHERE_RADIUS / length_v pos)"
    and "length_v (multiplyScalar (normalize_v pos) SPHERE_RADIUS) = SPHERE_RADIUS"
    and "multiplyScalar (normalize_v (multiplyScalar (normalize_v pos) SPHERE_RADIUS)) 0.5
         = multiplyScalar pos (0.5 / length_v pos)"
proof -
  from assms have nz: "length_v pos \<noteq> 0" and pos: "0 < length_v pos"
    by (simp_all add: SPHERE_RADIUS_def)
  show a: "multiplyScalar (normalize_v pos) SPHERE_RADIUS = multiplyScalar pos (SPHERE_RADIUS / length_v pos)"
    using nz by (simp add: normalize_v_scale multiplyScalar_twice)
  show b: "length_v (multiplyScalar (normalize_v pos) SPHERE_RADIUS) = SPHERE_RADIUS"
    using nz by (simp add: length_v_multiplyScalar length_v_normalize SPHERE_RADIUS_def)
  have "length_v (multiplyScalar (normalize_v pos) SPHERE_RADIUS) \<noteq> 0"
    using b by (simp add: SPHERE_RADIUS_def)
  then have "normalize_v (multiplyScalar (normalize_v pos) SPHERE_RADIUS)
      = multiplyScalar (multiplyScalar (normalize_v pos) SPHERE_RADIUS) (1 / SPHERE_RADIUS)"
    using b normalize_v_scale [of "multiplyScalar (normalize_v pos) SPHERE_RADIUS"] by simp
  also have "\<dots> = normalize_v pos"
    by (cases "normalize_v pos") (simp add: multiplyScalar_def SPHERE_RADIUS_def)
  also have "\<dots> = multiplyScalar pos (1 / length_v pos)"
    using nz by (rule normalize_v_scale)
  finally show "multiplyScalar (normalize_v (multiplyScalar (normalize_v pos) SPHERE_RADIUS)) 0.5
         = multiplyScalar pos (0.5 / length_v pos)"
    by (simp add: multiplyScalar_twice mult.commute)
qed


lemma path_movePhoton: "path (movePhoton cfg delta rnd p) = path p"
  by (simp add: movePhoton_def Let_def)

lemma photon_id_movePhoton: "photon_id (movePhoton cfg delta rnd p) = photon_id p"
  by (simp add: movePhoton_def Let_def)




lemma position_recordPath: "position (recordPath th p) = position p"
  by (simp add: recordPath_def)

lemma position_seedPath: "position (seedPath p) = position p"
  by (simp add: seedPath_def)

lemma velocity_seedPath: "velocity (seedPath p) = velocity p"
  by (simp add: seedPath_def)





lemma path_seedPath:
  "path (seedPath p) = (if length (path p) < 2 then path p @ [position p] else path p)"
  by (simp add: seedPath_def)

lemma recordPath_path:
  "path (recordPath th q) =
     (if path q = [] \<or> distanceTo (last (path q)) (position q) > th
      then path q @ [position q] else path q)"
  by (simp add: recordPath_def)

subsection \<open>Crossing the sphere\<close>

lemma movePhoton_boundary:
  assumes inside: "\<not> isOutside p"
    and vel: "vel = (if fst rnd < 0.3
                     then multiplyScalar (randomDirection (fst (snd rnd)) (snd (snd rnd))) (stepDistance cfg)
                     else velocity p)"
    and pos: "pos = add_v (position p) (multiplyScalar vel (photonSpeed cfg * delta * 2))"
    and far: "SPHERE_RADIUS \<le> length_v pos"
  shows "movePhoton cfg delta rnd p =
           p\<lparr>velocity := multiplyScalar pos (0.5 / length_v pos),
              position := multiplyScalar pos (SPHERE_RADIUS / length_v pos),
              distanceFromCenter := length_v pos, isOutside := True\<rparr>"
proof (cases "fst rnd < 0.3")
  case True
  with vel pos have pos': "add_v (position p) (multiplyScalar (multiplyScalar
      (randomDirection (fst (snd rnd)) (snd (snd rnd))) (stepDistance cfg)) (photonSpeed cfg * delta * 2)) = pos"
    by simp
  from True inside far boundary_position [OF far] show ?thesis
    by (simp add: movePhoton_def Let_def pos')
next
  case False
  with vel pos have pos': "add_v (position p) (multiplyScalar (velocity p) (photonSpeed cfg * delta * 2)) = pos"
    by simp
  from False inside far boundary_position [OF far] show ?thesis
    by (simp add: movePhoton_def Let_def pos')
qed

text \<open>
  C1 (evaluation of the code).  A photon at distance 3.4 that moves 0.2 outwards in
  an inside-phase frame comes out with \<open>isOutside\<close> set, with its position scaled
  back to length 3.5 and with the velocity of length 0.5 along the same ray; its
  \<open>distanceFromCenter\<close> is the 3.6 measured before the position was scaled back,
  not 3.5.  Both revisions behave so.
\<close>

theorem boundary_frame_keeps_measured_distance:
  "Photon_useFrame DEFAULT_SETTINGS False 0.16 (0.5, 0, 0)
     \<lparr>photon_id = 0, position = Vector3 3.4 0 0, velocity = Vector3 0.625 0 0,
        path = [Vector3 0 0 0, Vector3 3.32 0 0], isOutside = False, distanceFromCenter = 3.4\<rparr>
   = Some \<lparr>photon_id = 0, position = Vector3 3.5 0 0, velocity = Vector3 0.5 0 0,
        path = [Vector3 0 0 0, Vector3 3.32 0 0, Vector3 3.5 0 0], isOutside = True,
        distanceFromCenter = 3.6\<rparr>
   \<and> Photon_useFrame_v1 DEFAULT_SETTINGS False 0.16 (0.5, 0, 0)
     \<lparr>photon_id = 0, position = Vector3 3.4 0 0, velocity = Vector3 0.625 0 0,
        path = [Vector3 0 0 0, Vector3 3.32 0 0], isOutside = False, distanceFromCenter = 3.4\<rparr>
   = Some \<lparr>photon_id = 0, position = Vector3 3.5 0 0, velocity = Vector3 0.5 0 0,
        path = [Vector3 0 0 0, Vector3 3.32 0 0, Vector3 3.5 0 0], isOutside = True,
        distanceFromCenter = 3.6\<rparr>"
  by (simp add: Photon_useFrame_def Photon_useFrame_v1_def DEFAULT_SETTINGS_def seedPath_def
      movePhoton_def Let_def add_v_def multiplyScalar_def length_v_axis SPHERE_RADIUS_def
      normalize_v_def divideScalar_def recordPath_def distanceTo_axis DISTANCE_THRESHOLD_def)

subsection \<open>The outside phase is absorbing\<close>



subsection \<open>Recording the path\<close>

lemma recorded_path:
  assumes frame: "Some p' = Some (recordPath th (movePhoton cfg delta rnd (seedPath p)))"
    and seeded: "seeded = (if length (path p) < 2 then path p @ [position p] else path p)"
  shows "(path p' = seeded @ [position p'] \<or> path p' = seeded)
      \<and> (path p' = seeded @ [position p']
           \<longleftrightarrow> seeded = [] \<or> distanceTo (last seeded) (position p') > th)
      \<and> position (movePhoton cfg delta rnd (seedPath p)) = position p'"
proof -
  define q where "q = movePhoton cfg delta rnd (seedPath p)"
  from frame have p': "p' = recordPath th q"
    by (simp add: q_def)
  have pq: "path q = seeded"
    by (simp add: q_def path_movePhoton path_seedPath seeded)
  have pos: "position p' = position q"
    by (simp add: p' position_recordPath)
  have "path p' = (if seeded = [] \<or> distanceTo (last seeded) (position p') > th
      then seeded @ [position p'] else seeded)"
    unfolding pos by (simp add: p' recordPath_path pq)
  then show ?thesis
    using pos by (auto simp: q_def)
qed

text \<open>
  C3 (as the code has it).  In a frame that is not paused, whatever the phase, let
  \<open>seeded\<close> be the path after the forced first append (the old position is appended
  when the path has fewer than two points).  The frame appends the new position to
  it if and only if it is empty or its last point is farther from the new position
  than the threshold, and otherwise leaves it as it is.  The threshold is 0.1
  (\<open>DISTANCE_THRESHOLD\<close>) in the later revision and 0.05 in the earlier one; the new
  position is the same in both.
\<close>

theorem path_recording:
  assumes later: "Photon_useFrame cfg False delta rnd p = Some p'"
    and earlier: "Photon_useFrame_v1 cfg False delta rnd p = Some p1"
    and seeded: "seeded = (if length (path p) < 2 then path p @ [position p] else path p)"
  shows "(path p' = seeded @ [position p'] \<or> path p' = seeded)
      \<and> (path p' = seeded @ [position p']
           \<longleftrightarrow> seeded = [] \<or> distanceTo (last seeded) (position p') > 0.1)
      \<and> position (movePhoton cfg delta rnd (seedPath p)) = position p'
      \<and> (path p1 = seeded @ [position p1] \<or> path p1 = seeded)
      \<and> (path p1 = seeded @ [position p1]
           \<longleftrightarrow> seeded = [] \<or> distanceTo (last seeded) (position p1) > 0.05)
      \<and> position p1 = position p'"
proof -
  from later have l: "Some p' = Some (recordPath 0.1 (movePhoton cfg delta rnd (seedPath p)))"
    by (simp add: Photon_useFrame_def DISTANCE_THRESHOLD_def)
  from earlier have e: "Some p1 = Some (recordPath 0.05 (movePhoton cfg delta rnd (seedPath p)))"
    by (simp add: Photon_useFrame_v1_def)
  note a = recorded_path [OF l seeded] and b = recorded_path [OF e seeded]
  from a b have "position p1 = position p'"
    by simp
  with a b show ?thesis
    by blast
qed

theorem path_recording_witness:
  "Photon_useFrame DEFAULT_SETTINGS False 0.16 (0.5, 0, 0)
     \<lparr>photon_id = 0, position = Vector3 1 0 0, velocity = Vector3 0.625 0 0,
        path = [Vector3 0 0 0, Vector3 1 0 0], isOutside = False, distanceFromCenter = 1\<rparr>
   = Some \<lparr>photon_id = 0, position = Vector3 1.2 0 0, velocity = Vector3 0.625 0 0,
        path = [Vector3 0 0 0, Vector3 1 0 0, Vector3 1.2 0 0], isOutside = False,
        distanceFromCenter = 1.2\<rparr>
   \<and> Photon_useFrame_v1 DEFAULT_SETTINGS False 0.16 (0.5, 0, 0)
     \<lparr>photon_id = 0, position = Vector3 1 0 0, velocity = Vector3 0.625 0 0,
        path = [Vector3 0 0 0, Vector3 1 0 0], isOutside = False, distanceFromCenter = 1\<rparr>
   = Some \<lparr>photon_id = 0, position = Vector3 1.2 0 0, velocity = Vector3 0.625 0 0,
        path = [Vector3 0 0 0, Vector3 1 0 0, Vector3 1.2 0 0], isOutside = False,
        distanceFromCenter = 1.2\<rparr>
   \<and> distanceTo (last [Vector3 0 0 0, Vector3 1 0 0]) (Vector3 1.2 0 0) > 0.1
   \<and> distanceTo (last [Vector3 0 0 0, Vector3 1 0 0]) (Vector3 1.2 0 0) > 0.05"
proof -
  have later: "Photon_useFrame DEFAULT_SETTINGS False 0.16 (0.5, 0, 0)
     \<lparr>photon_id = 0, position = Vector3 1 0 0, velocity = Vector3 0.625 0 0,
        path = [Vector3 0 0 0, Vector3 1 0 0], isOutside = False, distanceFromCenter = 1\<rparr>
   = Some \<lparr>photon_id = 0, position = Vector3 1.2 0 0, velocity = Vector3 0.625 0 0,
        path = [Vector3 0 0 0, Vector3 1 0 0, Vector3 1.2 0 0], isOutside = False,
        distanceFromCenter = 1.2\<rparr>"
    by (simp add: Photon_useFrame_def DEFAULT_SETTINGS_def seedPath_def
      movePhoton_def Let_def add_v_def multiplyScalar_def length_v_axis SPHERE_RADIUS_def
      recordPath_def distanceTo_axis DISTANCE_THRESHOLD_def)
  have earlier: "Photon_useFrame_v1 DEFAULT_SETTINGS False 0.16 (0.5, 0, 0)
     \<lparr>photon_id = 0, position = Vector3 1 0 0, velocity = Vector3 0.625 0 0,
        path = [Vector3 0 0 0, Vector3 1 0 0], isOutside = False, distanceFromCenter = 1\<rparr>
   = Some \<lparr>photon_id = 0, position = Vector3 1.2 0 0, velocity = Vector3 0.625 0 0,
        path = [Vector3 0 0 0, Vector3 1 0 0, Vector3 1.2 0 0], isOutside = False,
        distanceFromCenter = 1.2\<rparr>"
    by (simp add: Photon_useFrame_v1_def DEFAULT_SETTINGS_def seedPath_def
      movePhoton_def Let_def add_v_def multiplyScalar_def length_v_axis SPHERE_RADIUS_def
      recordPath_def distanceTo_axis)
  have "(0.1::real) < distanceTo (last [Vector3 0 0 0, Vector3 1 0 0]) (Vector3 1.2 0 0)
      \<and> (0.05::real) < distanceTo (last [Vector3 0 0 0, Vector3 1 0 0]) (Vector3 1.2 0 0)"
    using path_recording [OF later earlier, of "[Vector3 0 0 0, Vector3 1 0 0]"] by simp
  with later earlier show ?thesis by simp
qed

text \<open>
  C3 (counterexample to the threshold 0.1 in both revisions).  A photon whose last
  recorded point is its position \<open>(1, 0, 0)\<close> moves by 0.0625 in one frame.  The
  earlier revision appends the new position although it is no more than 0.1 from
  the last recorded point; the later revision does not.
\<close>

theorem earlier_revision_records_short_move:
  "Photon_useFrame_v1 DEFAULT_SETTINGS False 0.05 (0.5, 0, 0)
     \<lparr>photon_id = 0, position = Vector3 1 0 0, velocity = Vector3 0.625 0 0,
        path = [Vector3 0 0 0, Vector3 1 0 0], isOutside = False, distanceFromCenter = 1\<rparr>
   = Some \<lparr>photon_id = 0, position = Vector3 1.0625 0 0, velocity = Vector3 0.625 0 0,
        path = [Vector3 0 0 0, Vector3 1 0 0, Vector3 1.0625 0 0], isOutside = False,
        distanceFromCenter = 1.0625\<rparr>
   \<and> Photon_useFrame DEFAULT_SETTINGS False 0.05 (0.5, 0, 0)
     \<lparr>photon_id = 0, position = Vector3 1 0 0, velocity = Vector3 0.625 0 0,
        path = [Vector3 0 0 0, Vector3 1 0 0], isOutside = False, distanceFromCenter = 1\<rparr>
   = Some \<lparr>photon_id = 0, position = Vector3 1.0625 0 0, velocity = Vector3 0.625 0 0,
        path = [Vector3 0 0 0, Vector3 1 0 0], isOutside = False,
        distanceFromCenter = 1.0625\<rparr>
   \<and> distanceTo (Vector3 1 0 0) (Vector3 1.0625 0 0) = 0.0625
   \<and> \<not> distanceTo (Vector3 1 0 0) (Vector3 1.0625 0 0) > 0.1"
  by (simp add: Photon_useFrame_def Photon_useFrame_v1_def DEFAULT_SETTINGS_def seedPath_def
      movePhoton_def Let_def add_v_def multiplyScalar_def length_v_axis SPHERE_RADIUS_def
      recordPath_def distanceTo_axis DISTANCE_THRESHOLD_def)

subsection \<open>Retired trails\<close>

text \<open>
  C5.  A trail built at retirement has at least two points: a one-point path gets
  its only point a second time, an empty path is replaced by two copies of the
  photon's current position, any longer path is taken over as it is; the trail
  carries the photon's id.
\<close>

theorem toTrail_two_points:
  "length (trail_path (toTrail p)) \<ge> 2
   \<and> (\<forall>a. path p = [a] \<longrightarrow> trail_path (toTrail p) = [a, a])
   \<and> (path p = [] \<longrightarrow> trail_path (toTrail p) = [position p, position p])
   \<and> (length (path p) \<ge> 2 \<longrightarrow> trail_path (toTrail p) = path p)
   \<and> trail_id (toTrail p) = photon_id p"
proof (cases "path p")
  case Nil
  then show ?thesis by (simp add: toTrail_def)
next
  case (Cons a rest)
  then show ?thesis by (cases rest) (simp_all add: toTrail_def)
qed

theorem toTrail_two_points_witness:
  "trail_path (toTrail \<lparr>photon_id = 7, position = Vector3 30 0 0, velocity = Vector3 1 0 0,
       path = [Vector3 1 2 3], isOutside = True, distanceFromCenter = 30\<rparr>)
     = [Vector3 1 2 3, Vector3 1 2 3]
   \<and> trail_path (toTrail \<lparr>photon_id = 7, position = Vector3 30 0 0, velocity = Vector3 1 0 0,
       path = [], isOutside = True, distanceFromCenter = 30\<rparr>)
     = [Vector3 30 0 0, Vector3 30 0 0]
   \<and> trail_path (toTrail \<lparr>photon_id = 7, position = Vector3 30 0 0, velocity = Vector3 1 0 0,
       path = [origin, Vector3 1 2 3, Vector3 30 0 0], isOutside = True, distanceFromCenter = 30\<rparr>)
     = [origin, Vector3 1 2 3, Vector3 30 0 0]
   \<and> trail_id (toTrail \<lparr>photon_id = 7, position = Vector3 30 0 0, velocity = Vector3 1 0 0,
       path = [Vector3 1 2 3], isOutside = True, distanceFromCenter = 30\<rparr>) = 7"
  using
    toTrail_two_points [of "\<lparr>photon_id = 7, position = Vector3 30 0 0, velocity = Vector3 1 0 0,
       path = [Vector3 1 2 3], isOutside = True, distanceFromCenter = 30\<rparr>"]
    toTrail_two_points [of "\<lparr>photon_id = 7, position = Vector3 30 0 0, velocity = Vector3 1 0 0,
       path = [], isOutside = True, distanceFromCenter = 30\<rparr>"]
    toTrail_two_points [of "\<lparr>photon_id = 7, position = Vector3 30 0 0, velocity = Vector3 1 0 0,
       path = [origin, Vector3 1 2 3, Vector3 30 0 0], isOutside = True, distanceFromCenter = 30\<rparr>"]
  by simp

subsection \<open>The page and its events\<close>

lemma createPhoton_fst:
  "fst (createPhoton c rnd) =
     \<lparr>photon_id = c, position = Vector3 0 0 0,
        velocity = Vector3 ((fst rnd - 0.5) * 0.1) ((fst (snd rnd) - 0.5) * 0.1) ((snd (snd rnd) - 0.5) * 0.1),
        path = [Vector3 0 0 0,
                multiplyScalar (Vector3 ((fst rnd - 0.5) * 0.1) ((fst (snd rnd) - 0.5) * 0.1) ((snd (snd rnd) - 0.5) * 0.1)) 0.01],
        isOutside = False, distanceFromCenter = 0\<rparr>"
  by (simp add: createPhoton_def Let_def add_v_def multiplyScalar_def)

lemma createPhoton_snd: "snd (createPhoton c rnd) = increment c"
  by (simp add: createPhoton_def Let_def)

lemma photons_mount: "photons (mount rnd) = [fst (createPhoton 0 rnd)]"
  by (simp add: mount_def split: prod.splits)

lemma photons_render: "photons (render rnd s) = photons s"
  by (simp add: render_def)

lemma photons_handleReset: "photons (handleReset rnd s) = [fst (createPhoton (photonIdCounter s) rnd)]"
  by (simp add: handleReset_def split: prod.splits)

lemma photons_handleAddPhoton:
  "photons (handleAddPhoton rnd s) =
     (if length (photons s) < MAX_PHOTONS
      then photons s @ [fst (createPhoton (photonIdCounter s) rnd)] else photons s)"
  by (simp add: handleAddPhoton_def split: prod.splits)

lemma photons_handlePhotonsUpdate: "photons (handlePhotonsUpdate ps ts s) = ps"
  by (simp add: handlePhotonsUpdate_def split: option.splits)

lemma trails_handlePhotonsUpdate:
  "trails (handlePhotonsUpdate ps ts s) = (case ts of None \<Rightarrow> trails s | Some new \<Rightarrow> trails s @ new)"
  by (simp add: handlePhotonsUpdate_def split: option.splits)

lemma length_photons_handlePhotonUpdate:
  "length (photons (handlePhotonUpdate q s)) = length (photons s)"
  by (simp add: handlePhotonUpdate_def Let_def photons_handlePhotonsUpdate)

lemma filter_far_empty:
  "length (filter (\<lambda>p. distanceFromCenter p < MAX_DISTANCE) ps) = length ps \<Longrightarrow>
   filter (\<lambda>p. distanceFromCenter p \<ge> MAX_DISTANCE) ps = []"
proof -
  assume "length (filter (\<lambda>p. distanceFromCenter p < MAX_DISTANCE) ps) = length ps"
  then have "\<forall>p \<in> set ps. distanceFromCenter p < MAX_DISTANCE"
    by (metis filter_id_conv length_filter_less less_irrefl)
  then show ?thesis by (auto simp: filter_empty_conv)
qed

lemma filter_near_empty:
  "filter (\<lambda>p. distanceFromCenter p < MAX_DISTANCE) ps = [] \<Longrightarrow>
   filter (\<lambda>p. distanceFromCenter p \<ge> MAX_DISTANCE) ps = ps"
  by (auto simp: filter_empty_conv filter_id_conv not_less)

lemma photons_Scene_effect:
  "photons (Scene_effect now rnd s) =
     (if photons s \<noteq> [] \<and> filter (\<lambda>p. distanceFromCenter p < MAX_DISTANCE) (photons s) = []
      then [(fst (createPhoton now rnd))]
      else filter (\<lambda>p. distanceFromCenter p < MAX_DISTANCE) (photons s))"
  apply (simp add: Scene_effect_def Let_def photons_handlePhotonsUpdate createPhoton_fst add_v_def multiplyScalar_def)
  apply (metis length_filter_less filter_id_conv less_irrefl)
  done


lemma photons_Scene_effect_v1:
  "photons (Scene_effect_v1 now rnd s) =
     (if photons s \<noteq> [] \<and> filter (\<lambda>p. distanceFromCenter p < MAX_DISTANCE) (photons s) = []
      then [(fst (createPhoton now rnd))\<lparr>path := [Vector3 0 0 0]\<rparr>]
      else filter (\<lambda>p. distanceFromCenter p < MAX_DISTANCE) (photons s))"
  apply (simp add: Scene_effect_v1_def Let_def photons_handlePhotonsUpdate createPhoton_fst)
  apply (metis length_filter_less filter_id_conv less_irrefl)
  done

lemma trails_Scene_effect:
  "trails (Scene_effect now rnd s) =
     trails s @ map toTrail (filter (\<lambda>p. distanceFromCenter p \<ge> MAX_DISTANCE) (photons s))"
  by (simp add: Scene_effect_def Let_def trails_handlePhotonsUpdate filter_far_empty)

lemma trails_Scene_effect_v1:
  "trails (Scene_effect_v1 now rnd s) =
     trails s @ map toTrail (filter (\<lambda>p. distanceFromCenter p \<ge> MAX_DISTANCE) (photons s))"
  by (simp add: Scene_effect_v1_def Let_def trails_handlePhotonsUpdate filter_far_empty)

lemma length_photons_Frame: "length (photons (fire rv (Frame i delta rnd) s)) = length (photons s)"
  by (simp add: length_photons_handlePhotonUpdate split: option.splits)

lemma photons_fire_Effect:
  "photons (fire rv (Effect now rnd) s) =
     (if photons s \<noteq> [] \<and> filter (\<lambda>p. distanceFromCenter p < MAX_DISTANCE) (photons s) = []
      then [case rv of Rev1 \<Rightarrow> (fst (createPhoton now rnd))\<lparr>path := [Vector3 0 0 0]\<rparr>
                     | Rev2 \<Rightarrow> fst (createPhoton now rnd)]
      else filter (\<lambda>p. distanceFromCenter p < MAX_DISTANCE) (photons s))"
  by (cases rv) (simp_all add: photons_Scene_effect photons_Scene_effect_v1)

lemma trails_fire_Effect:
  "trails (fire rv (Effect now rnd) s) =
     trails s @ map toTrail (filter (\<lambda>p. distanceFromCenter p \<ge> MAX_DISTANCE) (photons s))"
  by (cases rv) (simp_all add: trails_Scene_effect trails_Scene_effect_v1)

lemma population_fire:
  assumes "photons s \<noteq> []" and "length (photons s) \<le> MAX_PHOTONS"
  shows "photons (fire rv e s) \<noteq> [] \<and> length (photons (fire rv e s)) \<le> MAX_PHOTONS"
proof (cases e)
  case (Render rnd)
  with assms show ?thesis by (simp add: photons_render)
next
  case (Reset rnd)
  then show ?thesis by (simp add: photons_handleReset MAX_PHOTONS_def)
next
  case (AddPhoton rnd)
  with assms show ?thesis by (simp add: photons_handleAddPhoton)
next
  case PauseToggle
  with assms show ?thesis by simp
next
  case (SettingsChange c)
  with assms show ?thesis by simp
next
  case (Frame i delta rnd)
  have "length (photons (fire rv (Frame i delta rnd) s)) = length (photons s)"
    by (rule length_photons_Frame)
  with assms Frame show ?thesis by (metis length_0_conv)
next
  case (Effect now rnd)
  have "length (filter (\<lambda>p. distanceFromCenter p < MAX_DISTANCE) (photons s)) \<le> length (photons s)"
    by simp
  with assms have "length (filter (\<lambda>p. distanceFromCenter p < MAX_DISTANCE) (photons s)) \<le> MAX_PHOTONS"
    by (rule_tac order_trans)
  with assms Effect show ?thesis
    by (simp add: photons_fire_Effect MAX_PHOTONS_def del: fire.simps)
qed

lemma population_reachable:
  "reachable rv s \<Longrightarrow> photons s \<noteq> [] \<and> length (photons s) \<le> MAX_PHOTONS"
proof (induction rule: reachable.induct)
  case (first_render rnd)
  show ?case by (simp add: photons_mount MAX_PHOTONS_def)
next
  case (after_event s e)
  then show ?case using population_fire by blast
qed

lemmas frame_eval =
  Photon_useFrame_def Photon_useFrame_v1_def DEFAULT_SETTINGS_def seedPath_def
  movePhoton_def Let_def add_v_def multiplyScalar_def length_v_axis SPHERE_RADIUS_def
  normalize_v_def divideScalar_def recordPath_def distanceTo_axis DISTANCE_THRESHOLD_def

lemma two_long_frames:
  "photons (fire Rev2 (Frame 0 100 (0.5, 0, 0)) (fire Rev2 (Frame 0 100 (0.5, 0, 0)) (mount (0.9, 0.5, 0.5))))
   = [\<lparr>photon_id = 0, position = Vector3 303.5 0 0, velocity = Vector3 0.5 0 0,
        path = [Vector3 0 0 0, Vector3 0.0004 0 0, Vector3 3.5 0 0, Vector3 303.5 0 0],
        isOutside = True, distanceFromCenter = 303.5\<rparr>]"
  by (simp add: mount_def createPhoton_def handlePhotonUpdate_def handlePhotonsUpdate_def frame_eval)

subsection \<open>Reaping\<close>

text \<open>
  C2.  In every state the page can reach, the effect of \<^verbatim>\<open>Scene\<close> leaves at least one
  live photon.  If no photon is nearer than 25, the live list becomes one new photon
  at the origin, with the velocity drawn afresh (each component a draw minus one
  half, times 0.1); otherwise the live list is the list of the photons nearer than
  25.  In both cases the trails of the photons at 25 or beyond are appended to the
  trails.
\<close>

theorem reap_keeps_population:
  assumes "reachable rv s"
    and "active = filter (\<lambda>p. distanceFromCenter p < MAX_DISTANCE) (photons s)"
    and "escaped = filter (\<lambda>p. distanceFromCenter p \<ge> MAX_DISTANCE) (photons s)"
    and "s' = fire rv (Effect now rnd) s"
  shows "length (photons s') \<ge> 1
     \<and> (active = [] \<longrightarrow>
          (\<exists>q. photons s' = [q] \<and> photon_id q = now \<and> position q = Vector3 0 0 0
             \<and> velocity q = Vector3 ((fst rnd - 0.5) * 0.1) ((fst (snd rnd) - 0.5) * 0.1)
                             ((snd (snd rnd) - 0.5) * 0.1)
             \<and> \<not> isOutside q \<and> distanceFromCenter q = 0))
     \<and> (active \<noteq> [] \<longrightarrow> photons s' = active)
     \<and> trails s' = trails s @ map toTrail escaped"
proof -
  from assms(1) have ne: "photons s \<noteq> []"
    by (simp add: population_reachable)
  show ?thesis
  proof (cases "active = []")
    case True
    with ne assms(2-4) show ?thesis
      by (cases rv) (simp_all add: photons_fire_Effect trails_fire_Effect createPhoton_fst
          del: fire.simps)
  next
    case False
    with assms(2-4) show ?thesis
      by (simp add: photons_fire_Effect trails_fire_Effect Suc_le_eq del: fire.simps)
  qed
qed


theorem reap_keeps_population_witness:
  "reachable Rev2 (fire Rev2 (Frame 0 100 (0.5, 0, 0)) (fire Rev2 (Frame 0 100 (0.5, 0, 0)) (mount (0.9, 0.5, 0.5))))
   \<and> filter (\<lambda>p. distanceFromCenter p < MAX_DISTANCE)
        (photons (fire Rev2 (Frame 0 100 (0.5, 0, 0)) (fire Rev2 (Frame 0 100 (0.5, 0, 0)) (mount (0.9, 0.5, 0.5))))) = []
   \<and> (\<exists>q. photons (fire Rev2 (Effect 1700000000000 (0.25, 0.5, 0.75))
               (fire Rev2 (Frame 0 100 (0.5, 0, 0)) (fire Rev2 (Frame 0 100 (0.5, 0, 0)) (mount (0.9, 0.5, 0.5))))) = [q]
          \<and> photon_id q = 1700000000000 \<and> position q = Vector3 0 0 0 \<and> velocity q = Vector3 (- 0.025) 0 0.025)
   \<and> map trail_id (trails (fire Rev2 (Effect 1700000000000 (0.25, 0.5, 0.75))
               (fire Rev2 (Frame 0 100 (0.5, 0, 0)) (fire Rev2 (Frame 0 100 (0.5, 0, 0)) (mount (0.9, 0.5, 0.5)))))) = [0]"
proof -
  let ?s = "fire Rev2 (Frame 0 100 (0.5, 0, 0)) (fire Rev2 (Frame 0 100 (0.5, 0, 0)) (mount (0.9, 0.5, 0.5)))"
  have r: "reachable Rev2 ?s"
    by (intro reachable.intros)
  have t: "trails ?s = []"
    by (simp add: mount_def createPhoton_def handlePhotonUpdate_def handlePhotonsUpdate_def frame_eval)
  have a: "filter (\<lambda>p. distanceFromCenter p < MAX_DISTANCE) (photons ?s) = []"
    by (simp only: two_long_frames) (simp add: MAX_DISTANCE_def)
  have e: "filter (\<lambda>p. distanceFromCenter p \<ge> MAX_DISTANCE) (photons ?s) = photons ?s"
    by (simp only: two_long_frames) (simp add: MAX_DISTANCE_def)
  from reap_keeps_population [OF r a [symmetric] e [symmetric] refl, of 1700000000000 "(0.25, 0.5, 0.75)"]
  have "(\<exists>q. photons (fire Rev2 (Effect 1700000000000 (0.25, 0.5, 0.75)) ?s) = [q]
          \<and> photon_id q = 1700000000000 \<and> position q = Vector3 0 0 0 \<and> velocity q = Vector3 (- 0.025) 0 0.025)"
    and "trails (fire Rev2 (Effect 1700000000000 (0.25, 0.5, 0.75)) ?s) = trails ?s @ map toTrail (photons ?s)"
    by (auto simp del: fire.simps)
  then have "(\<exists>q. photons (fire Rev2 (Effect 1700000000000 (0.25, 0.5, 0.75)) ?s) = [q]
          \<and> photon_id q = 1700000000000 \<and> position q = Vector3 0 0 0 \<and> velocity q = Vector3 (- 0.025) 0 0.025)"
    and "map trail_id (trails (fire Rev2 (Effect 1700000000000 (0.25, 0.5, 0.75)) ?s)) = [0]"
    by (simp_all only: t two_long_frames) (simp add: toTrail_def)
  with r a show ?thesis
    by (intro conjI)
qed

subsection \<open>New photons\<close>

text \<open>
  C10.  A photon made by \<^verbatim>\<open>createPhoton\<close> is in the inside phase, at the origin, with
  \<open>distanceFromCenter\<close> 0 and a path that starts at the origin; so is the same photon
  with the one-point path \<open>[origin]\<close>.  The first photon of the page, the photon of a
  reset and the photon of an accepted add are made by \<^verbatim>\<open>createPhoton\<close>; the photon the
  effect of \<^verbatim>\<open>Scene\<close> installs when none is left is that photon with \<^verbatim>\<open>Date.now()\<close> as
  its id (with the one-point path in the earlier revision).
\<close>

theorem new_photons_start_inside:
  "(let p = fst (createPhoton c rnd) in
      \<not> isOutside p \<and> position p = Vector3 0 0 0 \<and> distanceFromCenter p = 0
      \<and> length_v (position p) < SPHERE_RADIUS \<and> path p \<noteq> [] \<and> hd (path p) = Vector3 0 0 0)
   \<and> (let p = (fst (createPhoton c rnd))\<lparr>path := [Vector3 0 0 0]\<rparr> in
      \<not> isOutside p \<and> position p = Vector3 0 0 0 \<and> distanceFromCenter p = 0
      \<and> length_v (position p) < SPHERE_RADIUS \<and> path p \<noteq> [] \<and> hd (path p) = Vector3 0 0 0)
   \<and> photons (mount rnd) = [fst (createPhoton 0 rnd)]
   \<and> photons (handleReset rnd s) = [fst (createPhoton (photonIdCounter s) rnd)]
   \<and> photons (handleAddPhoton rnd s) =
       (if length (photons s) < MAX_PHOTONS
        then photons s @ [fst (createPhoton (photonIdCounter s) rnd)] else photons s)
   \<and> photons (Scene_effect now rnd s) =
       (if photons s \<noteq> [] \<and> filter (\<lambda>p. distanceFromCenter p < MAX_DISTANCE) (photons s) = []
        then [fst (createPhoton now rnd)]
        else filter (\<lambda>p. distanceFromCenter p < MAX_DISTANCE) (photons s))
   \<and> photons (Scene_effect_v1 now rnd s) =
       (if photons s \<noteq> [] \<and> filter (\<lambda>p. distanceFromCenter p < MAX_DISTANCE) (photons s) = []
        then [(fst (createPhoton now rnd))\<lparr>path := [Vector3 0 0 0]\<rparr>]
        else filter (\<lambda>p. distanceFromCenter p < MAX_DISTANCE) (photons s))"
  by (simp only: photons_mount photons_handleReset photons_handleAddPhoton photons_Scene_effect
      photons_Scene_effect_v1 Let_def)
     (simp add: createPhoton_fst length_v_def SPHERE_RADIUS_def)

subsection \<open>Adding a photon\<close>

lemma reachable_adds: "reachable rv ((handleAddPhoton rnd ^^ n) (mount rnd0))"
proof (induction n)
  case 0
  show ?case by (simp add: first_render)
next
  case (Suc n)
  from after_event [OF Suc, of "AddPhoton rnd"] show ?case by simp
qed

lemma length_adds:
  "length (photons ((handleAddPhoton rnd ^^ n) (mount rnd0))) = min (Suc n) MAX_PHOTONS"
  by (induction n) (simp_all add: photons_mount photons_handleAddPhoton MAX_PHOTONS_def)

text \<open>
  C8.  In every state the page can reach there are at most 8 live photons.  With
  fewer than 8, \<^verbatim>\<open>handleAddPhoton\<close> appends exactly one new photon: at the origin,
  with the drawn velocity, a path of two points (the origin and 0.01 times the
  velocity), and the counter as its id.  With 8 it changes nothing.  After it there
  are still at most 8.
\<close>

theorem add_photon_capped:
  assumes "reachable rv s"
  shows "length (photons s) \<le> 8
     \<and> (length (photons s) < 8 \<longrightarrow>
          handleAddPhoton rnd s =
            s\<lparr>photons := photons s @
                 [\<lparr>photon_id = photonIdCounter s, position = Vector3 0 0 0,
                   velocity = Vector3 ((fst rnd - 0.5) * 0.1) ((fst (snd rnd) - 0.5) * 0.1)
                                ((snd (snd rnd) - 0.5) * 0.1),
                   path = [Vector3 0 0 0,
                           Vector3 ((fst rnd - 0.5) * 0.1 * 0.01) ((fst (snd rnd) - 0.5) * 0.1 * 0.01)
                             ((snd (snd rnd) - 0.5) * 0.1 * 0.01)],
                   isOutside = False, distanceFromCenter = 0\<rparr>],
               photonIdCounter := increment (photonIdCounter s)\<rparr>)
     \<and> (length (photons s) = 8 \<longrightarrow> handleAddPhoton rnd s = s)
     \<and> length (photons (handleAddPhoton rnd s)) \<le> 8"
proof -
  from assms have "length (photons s) \<le> 8"
    using population_reachable [of rv s] by (simp add: MAX_PHOTONS_def)
  then show ?thesis
    by (simp add: handleAddPhoton_def MAX_PHOTONS_def createPhoton_def Let_def add_v_def multiplyScalar_def)
qed

theorem add_photon_capped_witness:
  "reachable Rev2 (mount (0.9, 0.5, 0.5))
   \<and> length (photons (mount (0.9, 0.5, 0.5))) = 1
   \<and> map photon_id (photons (handleAddPhoton (0.25, 0.5, 0.75) (mount (0.9, 0.5, 0.5)))) = [0, 1]
   \<and> reachable Rev2 ((handleAddPhoton (0.25, 0.5, 0.75) ^^ 7) (mount (0.9, 0.5, 0.5)))
   \<and> length (photons ((handleAddPhoton (0.25, 0.5, 0.75) ^^ 7) (mount (0.9, 0.5, 0.5)))) = 8
   \<and> handleAddPhoton (0.1, 0.2, 0.3) ((handleAddPhoton (0.25, 0.5, 0.75) ^^ 7) (mount (0.9, 0.5, 0.5)))
       = (handleAddPhoton (0.25, 0.5, 0.75) ^^ 7) (mount (0.9, 0.5, 0.5))"
proof -
  have r1: "reachable Rev2 (mount (0.9, 0.5, 0.5))"
    by (rule first_render)
  have l1: "length (photons (mount (0.9, 0.5, 0.5))) = 1"
    by (simp add: photons_mount)
  have r8: "reachable Rev2 ((handleAddPhoton (0.25, 0.5, 0.75) ^^ 7) (mount (0.9, 0.5, 0.5)))"
    by (rule reachable_adds)
  have l8: "length (photons ((handleAddPhoton (0.25, 0.5, 0.75) ^^ 7) (mount (0.9, 0.5, 0.5)))) = 8"
    by (simp add: length_adds MAX_PHOTONS_def)
  have c1: "photonIdCounter (mount (0.9, 0.5, 0.5)) = 1"
    by (simp add: mount_def createPhoton_def increment_def Let_def)
  from add_photon_capped [OF r1, of "(0.25, 0.5, 0.75)"] l1 c1
  have a: "map photon_id (photons (handleAddPhoton (0.25, 0.5, 0.75) (mount (0.9, 0.5, 0.5)))) = [0, 1]"
    by (simp add: photons_mount createPhoton_fst)
  from add_photon_capped [OF r8, of "(0.1, 0.2, 0.3)"] l8
  have b: "handleAddPhoton (0.1, 0.2, 0.3) ((handleAddPhoton (0.25, 0.5, 0.75) ^^ 7) (mount (0.9, 0.5, 0.5)))
       = (handleAddPhoton (0.25, 0.5, 0.75) ^^ 7) (mount (0.9, 0.5, 0.5))"
    by simp
  from r1 l1 a r8 l8 b show ?thesis by (intro conjI)
qed

subsection \<open>Photon ids\<close>

lemma increment_ge: "n \<le> increment n"
  by (simp add: increment_def)

lemma counter_handlePhotonsUpdate:
  "photonIdCounter (handlePhotonsUpdate ps ts s) = photonIdCounter s"
  by (simp add: handlePhotonsUpdate_def split: option.splits)

lemma counter_fire: "photonIdCounter s \<le> photonIdCounter (fire rv e s)"
proof (cases e)
  case (Render rnd)
  then show ?thesis by (simp add: render_def createPhoton_snd increment_ge)
next
  case (Reset rnd)
  then show ?thesis
    by (simp add: handleReset_def createPhoton_def Let_def increment_ge)
next
  case (AddPhoton rnd)
  then show ?thesis
    by (simp add: handleAddPhoton_def createPhoton_def Let_def increment_ge)
next
  case PauseToggle
  then show ?thesis by simp
next
  case (SettingsChange c)
  then show ?thesis by simp
next
  case (Frame i delta rnd)
  then show ?thesis
    by (simp add: handlePhotonUpdate_def Let_def counter_handlePhotonsUpdate split: option.splits)
next
  case (Effect now rnd)
  then show ?thesis
    by (cases rv)
       (simp_all add: Scene_effect_def Scene_effect_v1_def Let_def counter_handlePhotonsUpdate)
qed

lemma counter_run: "photonIdCounter s \<le> photonIdCounter (run rv es s)"
proof (induction es arbitrary: s)
  case Nil
  show ?case by simp
next
  case (Cons e es)
  have "photonIdCounter s \<le> photonIdCounter (fire rv e s)"
    by (rule counter_fire)
  also have "\<dots> \<le> photonIdCounter (run rv es (fire rv e s))"
    by (rule Cons.IH)
  finally show ?case by simp
qed

lemma photon_id_useFrame:
  "Photon_useFrame cfg paused delta rnd p = Some q \<Longrightarrow> photon_id q = photon_id p"
  by (auto simp: Photon_useFrame_def recordPath_def photon_id_movePhoton seedPath_def
      split: if_splits)

lemma photon_id_useFrame_v1:
  "Photon_useFrame_v1 cfg paused delta rnd p = Some q \<Longrightarrow> photon_id q = photon_id p"
  by (auto simp: Photon_useFrame_v1_def recordPath_def photon_id_movePhoton seedPath_def
      split: if_splits)

lemma photon_id_frames: "photon_id (frames ts p) = photon_id p"
proof (induction ts arbitrary: p)
  case Nil
  show ?case by simp
next
  case (Cons t ts)
  obtain cfg paused delta rnd where t: "t = (cfg, paused, delta, rnd)"
    by (cases t) auto
  show ?case
    using Cons.IH t by (auto split: option.splits dest: photon_id_useFrame)
qed

lemma photon_id_frames_v1: "photon_id (frames_v1 ts p) = photon_id p"
proof (induction ts arbitrary: p)
  case Nil
  show ?case by simp
next
  case (Cons t ts)
  obtain cfg paused delta rnd where t: "t = (cfg, paused, delta, rnd)"
    by (cases t) auto
  show ?case
    using Cons.IH t by (auto split: option.splits dest: photon_id_useFrame_v1)
qed

lemma photonIdCounter_mount: "photonIdCounter (mount rnd) = 1"
  by (simp add: mount_def createPhoton_def increment_def Let_def)

text \<open>
  C9 (as the code has it).  \<^verbatim>\<open>createPhoton\<close> gives the photon the current value of the
  module counter and increments it.  No event lowers the counter, so while it is
  below \<open>2^53\<close> a photon that \<^verbatim>\<open>createPhoton\<close> makes after any further run of events
  has a strictly larger id than one it made before.  Frames keep the id.  The photon
  the effect of \<^verbatim>\<open>Scene\<close> installs when none is left does not take the counter: its id
  is the value of \<^verbatim>\<open>Date.now()\<close>.
\<close>

theorem counter_ids_increase:
  assumes below: "photonIdCounter s < 2 ^ 53"
    and made: "photonIdCounter s1 = snd (createPhoton (photonIdCounter s) r1)"
  shows "photon_id (fst (createPhoton (photonIdCounter s) r1)) = photonIdCounter s
     \<and> photon_id (fst (createPhoton (photonIdCounter s) r1))
         < photon_id (fst (createPhoton (photonIdCounter (run rv es s1)) r2))
     \<and> photon_id (frames ts p) = photon_id p
     \<and> photon_id (frames_v1 ts p) = photon_id p
     \<and> map photon_id (photons (fire rv (Effect now rnd) s2)) =
         (if photons s2 \<noteq> [] \<and> filter (\<lambda>p. distanceFromCenter p < MAX_DISTANCE) (photons s2) = []
          then [now]
          else map photon_id (filter (\<lambda>p. distanceFromCenter p < MAX_DISTANCE) (photons s2)))"
proof -
  from below made have "photonIdCounter s < photonIdCounter s1"
    by (simp add: createPhoton_snd increment_def)
  also have "\<dots> \<le> photonIdCounter (run rv es s1)"
    by (rule counter_run)
  finally have "photonIdCounter s < photonIdCounter (run rv es s1)" .
  moreover have "map photon_id (photons (fire rv (Effect now rnd) s2)) =
         (if photons s2 \<noteq> [] \<and> filter (\<lambda>p. distanceFromCenter p < MAX_DISTANCE) (photons s2) = []
          then [now]
          else map photon_id (filter (\<lambda>p. distanceFromCenter p < MAX_DISTANCE) (photons s2)))"
    by (cases rv) (simp_all add: photons_fire_Effect createPhoton_fst del: fire.simps)
  ultimately show ?thesis
    by (simp add: createPhoton_fst photon_id_frames photon_id_frames_v1 del: fire.simps)
qed


theorem counter_ids_increase_witness:
  "photonIdCounter (mount (0.9, 0.5, 0.5)) < 2 ^ 53
   \<and> photonIdCounter (handleAddPhoton (0.25, 0.5, 0.75) (mount (0.9, 0.5, 0.5)))
       = snd (createPhoton (photonIdCounter (mount (0.9, 0.5, 0.5))) (0.25, 0.5, 0.75))
   \<and> photon_id (last (photons (handleAddPhoton (0.25, 0.5, 0.75) (mount (0.9, 0.5, 0.5))))) = 1
   \<and> 1 < photon_id (fst (createPhoton (photonIdCounter
            (run Rev2 [Render (0.1, 0.1, 0.1), Frame 0 0.016 (0.5, 0, 0), Render (0.2, 0.2, 0.2)]
               (handleAddPhoton (0.25, 0.5, 0.75) (mount (0.9, 0.5, 0.5))))) (0.3, 0.3, 0.3)))"
proof -
  have c1: "photonIdCounter (mount (0.9, 0.5, 0.5)) = 1"
    by (rule photonIdCounter_mount)
  then have below: "photonIdCounter (mount (0.9, 0.5, 0.5)) < 2 ^ 53"
    by simp
  have made: "photonIdCounter (handleAddPhoton (0.25, 0.5, 0.75) (mount (0.9, 0.5, 0.5)))
       = snd (createPhoton (photonIdCounter (mount (0.9, 0.5, 0.5))) (0.25, 0.5, 0.75))"
    by (simp add: handleAddPhoton_def photons_mount MAX_PHOTONS_def photonIdCounter_mount
        split: prod.splits)
  have l: "photon_id (last (photons (handleAddPhoton (0.25, 0.5, 0.75) (mount (0.9, 0.5, 0.5))))) = 1"
    by (simp add: photons_handleAddPhoton photons_mount MAX_PHOTONS_def createPhoton_fst
        photonIdCounter_mount)
  from counter_ids_increase [where rv = Rev2
      and es = "[Render (0.1, 0.1, 0.1), Frame 0 0.016 (0.5, 0, 0), Render (0.2, 0.2, 0.2)]"
      and ?r2.0 = "(0.3, 0.3, 0.3)", OF below made]
  have "photon_id (fst (createPhoton (photonIdCounter (mount (0.9, 0.5, 0.5))) (0.25, 0.5, 0.75)))
      < photon_id (fst (createPhoton (photonIdCounter
            (run Rev2 [Render (0.1, 0.1, 0.1), Frame 0 0.016 (0.5, 0, 0), Render (0.2, 0.2, 0.2)]
               (handleAddPhoton (0.25, 0.5, 0.75) (mount (0.9, 0.5, 0.5))))) (0.3, 0.3, 0.3)))"
    by blast
  then have "1 < photon_id (fst (createPhoton (photonIdCounter
            (run Rev2 [Render (0.1, 0.1, 0.1), Frame 0 0.016 (0.5, 0, 0), Render (0.2, 0.2, 0.2)]
               (handleAddPhoton (0.25, 0.5, 0.75) (mount (0.9, 0.5, 0.5))))) (0.3, 0.3, 0.3)))"
    by (simp only: c1 createPhoton_fst PhotonData.select_convs)
  with below made l show ?thesis by (intro conjI)
qed

text \<open>
  C9 (counterexample to the statement that every id comes from the counter).  The first photon (id 0) leaves in two
  long frames and is retired at time 1700000000000; the photon that replaces it has
  that time as its id although the counter stands at 1 before and after; the photon
  added next gets id 1.  So an id is not taken from the counter, and the later
  photon has the smaller id.
\<close>

theorem replacement_id_counterexample:
  "map photon_id (photons (run Rev2
      [Frame 0 100 (0.5, 0, 0), Frame 0 100 (0.5, 0, 0), Effect 1700000000000 (0.25, 0.5, 0.75),
       AddPhoton (0.5, 0.5, 0.5)] (mount (0.9, 0.5, 0.5)))) = [1700000000000, 1]
   \<and> photonIdCounter (run Rev2
      [Frame 0 100 (0.5, 0, 0), Frame 0 100 (0.5, 0, 0)] (mount (0.9, 0.5, 0.5))) = 1
   \<and> photonIdCounter (run Rev2
      [Frame 0 100 (0.5, 0, 0), Frame 0 100 (0.5, 0, 0), Effect 1700000000000 (0.25, 0.5, 0.75)]
      (mount (0.9, 0.5, 0.5))) = 1"
  by (simp add: mount_def createPhoton_def handlePhotonUpdate_def handlePhotonsUpdate_def frame_eval
      Scene_effect_def MAX_DISTANCE_def handleAddPhoton_def MAX_PHOTONS_def increment_def)

subsection \<open>Segment colours\<close>


lemma Color_hex_photon_end:
  "Color_hex photon_end =
     Color (SRGBToLinear (200 / 255)) (SRGBToLinear (94 / 255)) (SRGBToLinear (10 / 255))"
  by (simp add: Color_hex_def photon_end_def)

lemma SRGBToLinear_low: "c < 0.04045 \<Longrightarrow> SRGBToLinear c = c * 0.0773993808"
  by (simp add: SRGBToLinear_def)

lemma SRGBToLinear_high:
  "\<not> c < 0.04045 \<Longrightarrow> SRGBToLinear c = (c * 0.9478672986 + 0.0521327014) powr 2.4"
  by (simp add: SRGBToLinear_def)

lemma powr_enclosure:
  fixes x a b :: real
  assumes x: "0 < x" and a: "a ^ 5 < x ^ 12" and b: "x ^ 12 < b ^ 5" and b0: "0 \<le> b"
  shows "a < x powr 2.4 \<and> x powr 2.4 < b"
proof -
  have "(x powr 2.4) ^ 5 = (x powr 2.4) powr (real 5)"
    using x by (simp only: powr_realpow [symmetric] powr_gt_zero)
  also have "\<dots> = x powr 12"
    by (simp add: powr_powr)
  also have "\<dots> = x ^ 12"
    using x powr_realpow [of x 12] by simp
  finally have p: "(x powr 2.4) ^ 5 = x ^ 12" .
  have "a ^ 5 < (x powr 2.4) ^ 5"
    using a p by simp
  then have lo: "a < x powr 2.4"
    by (rule power_less_imp_less_base) simp
  have "(x powr 2.4) ^ 5 < b ^ 5"
    using b p by simp
  then have hi: "x powr 2.4 < b"
    using b0 by (rule power_less_imp_less_base)
  from lo hi show ?thesis ..
qed

lemma linear_components:
  "SRGBToLinear (3 / 255) = 3 / 255 * 0.0773993808"
  "SRGBToLinear (7 / 255) = 7 / 255 * 0.0773993808"
  "SRGBToLinear (10 / 255) = 10 / 255 * 0.0773993808"
  "0.0382 < SRGBToLinear (55 / 255) \<and> SRGBToLinear (55 / 255) < 0.0383"
  "0.5775 < SRGBToLinear (200 / 255) \<and> SRGBToLinear (200 / 255) < 0.5776"
  "0.1119 < SRGBToLinear (94 / 255) \<and> SRGBToLinear (94 / 255) < 0.1120"
proof -
  show "SRGBToLinear (3 / 255) = 3 / 255 * 0.0773993808"
    by (simp add: SRGBToLinear_def)
  show "SRGBToLinear (7 / 255) = 7 / 255 * 0.0773993808"
    by (simp add: SRGBToLinear_def)
  show "SRGBToLinear (10 / 255) = 10 / 255 * 0.0773993808"
    by (simp add: SRGBToLinear_def)
  have "SRGBToLinear (55 / 255) = (55 / 255 * 0.9478672986 + 0.0521327014) powr 2.4"
    by (rule SRGBToLinear_high) simp
  moreover have "(0.0382::real) < (55 / 255 * 0.9478672986 + 0.0521327014) powr 2.4
      \<and> (55 / 255 * 0.9478672986 + 0.0521327014) powr 2.4 < (0.0383::real)"
    by (rule powr_enclosure) (simp_all add: power_divide divide_simps)
  ultimately show "0.0382 < SRGBToLinear (55 / 255) \<and> SRGBToLinear (55 / 255) < 0.0383"
    by simp
  have "SRGBToLinear (200 / 255) = (200 / 255 * 0.9478672986 + 0.0521327014) powr 2.4"
    by (rule SRGBToLinear_high) simp
  moreover have "(0.5775::real) < (200 / 255 * 0.9478672986 + 0.0521327014) powr 2.4
      \<and> (200 / 255 * 0.9478672986 + 0.0521327014) powr 2.4 < (0.5776::real)"
    by (rule powr_enclosure) (simp_all add: power_divide divide_simps)
  ultimately show "0.5775 < SRGBToLinear (200 / 255) \<and> SRGBToLinear (200 / 255) < 0.5776"
    by simp
  have "SRGBToLinear (94 / 255) = (94 / 255 * 0.9478672986 + 0.0521327014) powr 2.4"
    by (rule SRGBToLinear_high) simp
  moreover have "(0.1119::real) < (94 / 255 * 0.9478672986 + 0.0521327014) powr 2.4
      \<and> (94 / 255 * 0.9478672986 + 0.0521327014) powr 2.4 < (0.1120::real)"
    by (rule powr_enclosure) (simp_all add: power_divide divide_simps)
  ultimately show "0.1119 < SRGBToLinear (94 / 255) \<and> SRGBToLinear (94 / 255) < 0.1120"
    by simp
qed



lemma Photon_segment_v1_outside:
  "length_v start > 3.5 \<Longrightarrow>
   Photon_segment_v1 start = (Color_hex photon_end, max 0.1 (exp (- ((length_v start - 3.5) / 10))))"
  by (simp add: Photon_segment_v1_def SPHERE_RADIUS_def Let_def max_def)






lemma TrailRenderer_segment_v1_Photon: "TrailRenderer_segment_v1 start = Photon_segment_v1 start"
  by (simp add: TrailRenderer_segment_v1_def Photon_segment_v1_def)

lemma TrailRenderer_segment_Photon: "TrailRenderer_segment start = Photon_segment start"
  by (simp add: TrailRenderer_segment_def Photon_segment_def)

text \<open>
  In the later revision the same fade factor is multiplied into the colour.
\<close>

lemma Photon_segment_outside:
  "length_v start > 3.5 \<Longrightarrow>
   Photon_segment start =
     Color_multiplyScalar (Color_hex photon_end) (max 0.1 (exp (- ((length_v start - 3.5) / 10))))"
  by (simp add: Photon_segment_def SPHERE_RADIUS_def Let_def max_def)



lemma Color_multiplyScalar_one: "Color_multiplyScalar c 1 = c"
  by (cases c) (simp add: Color_multiplyScalar_def)

lemma Photon_segment_premultiplied:
  "Photon_segment start =
     Color_multiplyScalar (fst (Photon_segment_v1 start)) (snd (Photon_segment_v1 start))"
  by (simp add: Photon_segment_def Photon_segment_v1_def Let_def Color_multiplyScalar_one)

text \<open>
  C7 (as the code has it).  The mapping is written out in the loop body of \<^verbatim>\<open>Photon\<close>
  (live photons) and again in the loop body of \<^verbatim>\<open>TrailRenderer\<close> (retired trails), in
  each revision.  For every start point the two loop bodies of one revision compute
  the same result: the same colour and opacity in the earlier revision, the same
  vertex colour in the later one.  The vertex colour of the later revision is the
  colour of the earlier one multiplied by its opacity.
\<close>

theorem live_and_trail_segments_agree:
  "Photon_segment_v1 start = TrailRenderer_segment_v1 start
   \<and> Photon_segment start = TrailRenderer_segment start
   \<and> Photon_segment start =
       Color_multiplyScalar (fst (Photon_segment_v1 start)) (snd (Photon_segment_v1 start))
   \<and> TrailRenderer_segment start =
       Color_multiplyScalar (fst (TrailRenderer_segment_v1 start))
         (snd (TrailRenderer_segment_v1 start))"
  by (simp add: TrailRenderer_segment_v1_Photon TrailRenderer_segment_Photon
      Photon_segment_premultiplied [symmetric])

text \<open>
  C7 (counterexample across the revisions).  At the start point \<open>(13.5, 0, 0)\<close> the
  live loop of the later revision gives a darker colour than the trail loop of the
  earlier revision: its blue component is that of \<^verbatim>\<open>0xc85e0a\<close> times
  \<open>max 0.1 (exp (- 1))\<close>, which is less than 1.
\<close>

theorem later_live_differs_from_earlier_trail:
  "cb (Photon_segment (Vector3 13.5 0 0)) = 10 / 255 * 0.0773993808 * max 0.1 (exp (- 1))
   \<and> cb (fst (TrailRenderer_segment_v1 (Vector3 13.5 0 0))) = 10 / 255 * 0.0773993808
   \<and> snd (TrailRenderer_segment_v1 (Vector3 13.5 0 0)) = max 0.1 (exp (- 1))
   \<and> max 0.1 (exp (- 1)) < (1::real)
   \<and> Photon_segment (Vector3 13.5 0 0) \<noteq> fst (TrailRenderer_segment_v1 (Vector3 13.5 0 0))"
proof -
  have l: "length_v (Vector3 13.5 0 0) > 3.5"
    by (simp add: length_v_axis)
  have blue: "cb (Color_hex photon_end) = 10 / 255 * 0.0773993808"
    by (simp only: Color_hex_photon_end Color.sel linear_components)
  have e: "exp (- ((length_v (Vector3 13.5 0 0) - 3.5) / 10)) = exp (- 1)"
    by (simp add: length_v_axis)
  have "Photon_segment (Vector3 13.5 0 0) =
      Color_multiplyScalar (Color_hex photon_end) (max 0.1 (exp (- 1)))"
    using Photon_segment_outside [OF l] by (simp only: e)
  then have "cb (Photon_segment (Vector3 13.5 0 0)) = cb (Color_hex photon_end) * max 0.1 (exp (- 1))"
    by (simp only: Color_multiplyScalar_def Color.sel)
  then have live: "cb (Photon_segment (Vector3 13.5 0 0)) = 10 / 255 * 0.0773993808 * max 0.1 (exp (- 1))"
    by (simp only: blue)
  have trail: "TrailRenderer_segment_v1 (Vector3 13.5 0 0) = (Color_hex photon_end, max 0.1 (exp (- 1)))"
    using Photon_segment_v1_outside [OF l]
    by (simp only: e TrailRenderer_segment_v1_Photon)
  have tb: "cb (fst (TrailRenderer_segment_v1 (Vector3 13.5 0 0))) = 10 / 255 * 0.0773993808"
    by (simp only: trail fst_conv blue)
  have to: "snd (TrailRenderer_segment_v1 (Vector3 13.5 0 0)) = max 0.1 (exp (- 1))"
    by (simp only: trail snd_conv)
  have fade: "max 0.1 (exp (- 1)) < (1::real)"
    by simp
  have "cb (Photon_segment (Vector3 13.5 0 0)) < cb (fst (TrailRenderer_segment_v1 (Vector3 13.5 0 0)))"
    unfolding live tb using fade by simp
  then have ne: "Photon_segment (Vector3 13.5 0 0) \<noteq> fst (TrailRenderer_segment_v1 (Vector3 13.5 0 0))"
    by auto
  from live tb to fade ne show ?thesis by (intro conjI)
qed

end
